theory Spec2Isabelle
  imports Complex_Main "HOL-Library.AList"
begin

section \<open>Python values, exceptions and the observable world\<close>

text \<open>
  The raw payload handed to \<^verbatim>\<open>resolve_secrets\<close> is a Python dict whose values are
  strings, booleans, \<^verbatim>\<open>None\<close> or any other object. Strings are byte strings here
  (the UTF-8 encoding of the Python \<^verbatim>\<open>str\<close>).
\<close>

datatype pyval = PNone | PBool bool | PInt int | PStr string | PList "pyval list"

text \<open>Python truthiness (\<^verbatim>\<open>not value\<close> is its negation).\<close>

fun truthy :: "pyval \<Rightarrow> bool" where
  "truthy PNone = False"
| "truthy (PBool b) = b"
| "truthy (PInt i) = (i \<noteq> 0)"
| "truthy (PStr s) = (s \<noteq> [])"
| "truthy (PList xs) = (xs \<noteq> [])"

fun isinstance_str :: "pyval \<Rightarrow> bool" where
  "isinstance_str (PStr s) = True"
| "isinstance_str v = False"

text \<open>The text of a string value; it is read only where \<open>isinstance_str\<close> holds.\<close>

fun str_of :: "pyval \<Rightarrow> string" where
  "str_of (PStr s) = s"
| "str_of v = []"

text \<open>
  Exceptions are values. All of them are instances of Python's \<^verbatim>\<open>Exception\<close>, the
  class the handlers of \<^verbatim>\<open>utils.py\<close> catch. \<open>ValueError\<close> carries its message and
  its \<^verbatim>\<open>__cause__\<close> (set by \<^verbatim>\<open>raise ... from e\<close>); \<open>ClientError\<close> carries the
  error code of its response (\<open>None\<close> when the response has none) and its text;
  \<open>OtherException\<close> is any other exception of a collaborator, with its class name
  and its text.
\<close>

datatype exn =
    ValueError string "exn option"
  | KeyError string
  | ClientError "string option" string
  | OtherException string string

fun exn_str :: "exn \<Rightarrow> string" where
  "exn_str (ValueError m c) = m"
| "exn_str (KeyError k) = [CHR 0x27] @ k @ [CHR 0x27]"
| "exn_str (ClientError code m) = m"
| "exn_str (OtherException n m) = m"

fun exn_name :: "exn \<Rightarrow> string" where
  "exn_name (ValueError m c) = ''ValueError''"
| "exn_name (KeyError k) = ''KeyError''"
| "exn_name (ClientError code m) = ''ClientError''"
| "exn_name (OtherException n m) = n"

datatype level = DEBUG | WARNING | ERROR

datatype store = AWS | Azure | GCP

text \<open>
  A Python \<^verbatim>\<open>float\<close>: a finite value (a rational; the sign of zero is not kept), an
  infinity, or not a number. \<^verbatim>\<open>delay\<close>, \<^verbatim>\<open>backoff\<close> and \<^verbatim>\<open>wait\<close> are floats,
  as the annotations of \<^verbatim>\<open>retry\<close> say.
\<close>

datatype pyfloat = Finite rat | PosInf | NegInf | NaN

text \<open>
  What the code does to the outside is recorded in order: a request sent to a secret
  store (with the identifier asked for), a blocking sleep, a record handed to the logger.
\<close>

datatype event = Request store string | Sleep pyfloat | Log level string

text \<open>
  The world: \<^verbatim>\<open>os.environ\<close> (a dict, as an association list), the events so far, and
  the number of configuration objects allocated so far (an object's identity is the
  value of the counter when it was allocated).
\<close>

record world =
  environ :: "(string \<times> string) list"
  trace :: "event list"
  allocated :: nat

definition emit :: "event \<Rightarrow> world \<Rightarrow> world" where
  "emit ev w = w\<lparr>trace := trace w @ [ev]\<rparr>"

fun is_Log :: "event \<Rightarrow> bool" where
  "is_Log (Log l m) = True"
| "is_Log ev = False"

fun is_Request :: "event \<Rightarrow> bool" where
  "is_Request (Request s r) = True"
| "is_Request ev = False"

definition logs :: "world \<Rightarrow> event list" where
  "logs w = filter is_Log (trace w)"

definition requests :: "world \<Rightarrow> event list" where
  "requests w = filter is_Request (trace w)"

definition effects :: "world \<Rightarrow> event list" where
  "effects w = filter (\<lambda>ev. \<not> is_Log ev) (trace w)"

section \<open>utils.py: retry\<close>

text \<open>Decimal text of a number, as an f-string prints an \<^verbatim>\<open>int\<close>.\<close>

fun digits :: "nat \<Rightarrow> string" where
  "digits n = (if n < 10 then [char_of (48 + n)] else digits (n div 10) @ [char_of (48 + n mod 10)])"

definition str_int :: "int \<Rightarrow> string" where
  "str_int i = (if i < 0 then CHR ''-'' # digits (nat (- i)) else digits (nat i))"

text \<open>\<^verbatim>\<open>range(attempts)\<close>: empty when \<^verbatim>\<open>attempts\<close> is zero or negative.\<close>

definition range_py :: "int \<Rightarrow> int list" where
  "range_py n = map int [0..<nat n]"

definition retry_message :: "string \<Rightarrow> int \<Rightarrow> int \<Rightarrow> exn \<Rightarrow> string" where
  "retry_message name i attempts e =
     ''Retrying '' @ name @ '' (attempt '' @ str_int (i + 2) @ ''/'' @ str_int attempts
       @ '') after '' @ exn_name e @ '': '' @ exn_str e"

text \<open>
  The product of two floats and \<^verbatim>\<open>time.sleep\<close> belong to Python, not to the
  repository. \<open>float_mul\<close> is the product as Python computes it, rounded to a float;
  \<open>time_sleep\<close> gives the exception \<^verbatim>\<open>time.sleep\<close> raises for a length it refuses
  (a negative one, one that is not a number, one too large for the platform), and
  nothing when it sleeps and returns.
\<close>

record runtime =
  float_mul :: "pyfloat \<Rightarrow> pyfloat \<Rightarrow> pyfloat"
  time_sleep :: "pyfloat \<Rightarrow> exn option"

text \<open>
  The \<^verbatim>\<open>for i in range(attempts)\<close> loop of \<^verbatim>\<open>wrapper\<close>. \<open>fn\<close> is the wrapped call
  with its arguments, \<open>name\<close> its \<^verbatim>\<open>__name__\<close>, \<open>wait\<close> the current delay. The
  warning, the sleep and the product are inside the \<^verbatim>\<open>except\<close> block: an exception
  of \<^verbatim>\<open>time.sleep\<close> leaves the wrapper at once, after the warning. When the loop ends
  without a return or a raise, the wrapper returns \<^verbatim>\<open>None\<close>.
\<close>

fun retry_loop ::
  "runtime \<Rightarrow> int \<Rightarrow> pyfloat \<Rightarrow> string \<Rightarrow> (world \<Rightarrow> (exn + 'a) \<times> world) \<Rightarrow> int list
     \<Rightarrow> pyfloat \<Rightarrow> world \<Rightarrow> (exn + 'a option) \<times> world" where
  "retry_loop rt attempts backoff name fn [] wait w = (Inr None, w)"
| "retry_loop rt attempts backoff name fn (i # rest) wait w =
     (case fn w of
        (Inr r, w') \<Rightarrow> (Inr (Some r), w')
      | (Inl e, w') \<Rightarrow>
          if i = attempts - 1 then (Inl e, w')
          else
            let w1 = emit (Log WARNING (retry_message name i attempts e)) w' in
            (case time_sleep rt wait of
               Some refused \<Rightarrow> (Inl refused, w1)
             | None \<Rightarrow>
                 retry_loop rt attempts backoff name fn rest (float_mul rt wait backoff)
                   (emit (Sleep wait) w1)))"

definition retry ::
  "runtime \<Rightarrow> int \<Rightarrow> pyfloat \<Rightarrow> pyfloat \<Rightarrow> string \<Rightarrow> (world \<Rightarrow> (exn + 'a) \<times> world) \<Rightarrow> world
     \<Rightarrow> (exn + 'a option) \<times> world" where
  "retry rt attempts delay backoff name fn w =
     retry_loop rt attempts backoff name fn (range_py attempts) delay w"

text \<open>The defaults of \<^verbatim>\<open>retry\<close>: 3 attempts, delay 0.25, backoff 2.0.\<close>

definition retry_default ::
  "runtime \<Rightarrow> string \<Rightarrow> (world \<Rightarrow> (exn + 'a) \<times> world) \<Rightarrow> world \<Rightarrow> (exn + 'a option) \<times> world" where
  "retry_default rt = retry rt 3 (Finite (1 / 4)) (Finite 2)"

text \<open>
  The claim about a wrapped operation that always fails, in its own terms. \<open>nth_wait\<close>
  is the delay after the failure of invocation \<open>i + 1\<close>: \<^verbatim>\<open>delay\<close>, then
  \<^verbatim>\<open>delay * backoff\<close>, and so on, each a float product of the one before.
  \<open>attempt_world\<close> is the world in which invocation \<open>i + 1\<close> takes place: the given
  one for the first; for the next, the world the failed invocation before it left, then
  the warning, then the sleep of \<open>nth_wait\<close>.
\<close>

fun nth_wait :: "runtime \<Rightarrow> pyfloat \<Rightarrow> pyfloat \<Rightarrow> nat \<Rightarrow> pyfloat" where
  "nth_wait rt delay backoff 0 = delay"
| "nth_wait rt delay backoff (Suc i) = float_mul rt (nth_wait rt delay backoff i) backoff"

fun attempt_world ::
  "runtime \<Rightarrow> int \<Rightarrow> pyfloat \<Rightarrow> pyfloat \<Rightarrow> string \<Rightarrow> (world \<Rightarrow> (exn + 'a) \<times> world) \<Rightarrow> world
     \<Rightarrow> nat \<Rightarrow> world" where
  "attempt_world rt attempts delay backoff name fn w 0 = w"
| "attempt_world rt attempts delay backoff name fn w (Suc i) =
     (case fn (attempt_world rt attempts delay backoff name fn w i) of
        (Inl e, w') \<Rightarrow>
          emit (Sleep (nth_wait rt delay backoff i))
            (emit (Log WARNING (retry_message name (int i) attempts e)) w')
      | (Inr r, w') \<Rightarrow> w')"

section \<open>utils.py: the secret helpers\<close>

text \<open>
  The vendor clients are outside the repository. Each call of one is a function of the
  world at the time of the call (so a stub may answer by the number of requests it has
  seen): building a client gives an exception or nothing; a request gives an exception
  or the response. \<open>decode\<close> is \<^verbatim>\<open>bytes.decode("utf-8")\<close>.
\<close>

record aws_response =
  SecretString :: "string option"
  SecretBinary :: "string option"

record services =
  boto3_client :: "world \<Rightarrow> exn option"
  get_secret_value :: "world \<Rightarrow> string \<Rightarrow> exn + aws_response"
  decode :: "string \<Rightarrow> exn + string"
  SecretManagerServiceClient :: "world \<Rightarrow> exn option"
  access_secret_version :: "world \<Rightarrow> string \<Rightarrow> exn + string"
  SecretClient :: "world \<Rightarrow> string \<Rightarrow> exn option"
  get_secret :: "world \<Rightarrow> string \<Rightarrow> string \<Rightarrow> exn + string option"

text \<open>\<^verbatim>\<open>if x\<close> on the result of \<^verbatim>\<open>dict.get\<close>: present and not empty.\<close>

definition truthy_opt :: "string option \<Rightarrow> bool" where
  "truthy_opt x = (case x of None \<Rightarrow> False | Some s \<Rightarrow> s \<noteq> [])"

text \<open>\<^verbatim>\<open>os.environ.get(name)\<close>.\<close>

definition environ_get :: "world \<Rightarrow> string \<Rightarrow> string option" where
  "environ_get w name = map_of (environ w) name"

text \<open>Lines 41 to 49 of \<^verbatim>\<open>aws_secret_helper\<close>: the secret of a response.\<close>

definition aws_secret_value :: "services \<Rightarrow> string \<Rightarrow> aws_response \<Rightarrow> exn + string" where
  "aws_secret_value svc value response =
     (if truthy_opt (SecretString response) then Inr (the (SecretString response))
      else if truthy_opt (SecretBinary response) then decode svc (the (SecretBinary response))
      else Inl (ValueError (''AWS secret '' @ value @ '' has no SecretString or SecretBinary'') None))"

text \<open>The body of the \<^verbatim>\<open>try\<close> of \<^verbatim>\<open>aws_secret_helper\<close>.\<close>

definition aws_try :: "services \<Rightarrow> string \<Rightarrow> world \<Rightarrow> (exn + pyval) \<times> world" where
  "aws_try svc value w =
     (let w1 = emit (Request AWS value) w in
      case get_secret_value svc w value of
        Inl e \<Rightarrow> (Inl e, w1)
      | Inr response \<Rightarrow>
          (case aws_secret_value svc value response of
             Inl e \<Rightarrow> (Inl e, w1)
           | Inr secret_value \<Rightarrow>
               (Inr (PStr secret_value),
                emit (Log DEBUG (''Fetched secret from AWS Secrets Manager: '' @ value)) w1)))"

text \<open>
  \<^verbatim>\<open>e.response.get("Error", {}).get("Code", "")\<close> of a \<^verbatim>\<open>ClientError\<close>.
\<close>

definition error_code :: "string option \<Rightarrow> string" where
  "error_code code = (case code of None \<Rightarrow> [] | Some c \<Rightarrow> c)"

text \<open>
  \<^verbatim>\<open>aws_secret_helper\<close>: the client is built outside the \<^verbatim>\<open>try\<close>; the handler
  catches \<^verbatim>\<open>ClientError\<close> only, every other exception passes through it.
\<close>

definition aws_secret_helper :: "services \<Rightarrow> string \<Rightarrow> world \<Rightarrow> (exn + pyval) \<times> world" where
  "aws_secret_helper svc value w =
     (case boto3_client svc w of
        Some e \<Rightarrow> (Inl e, w)
      | None \<Rightarrow>
          (case aws_try svc value w of
             (Inl (ClientError code m), w') \<Rightarrow>
               if error_code code = ''ResourceNotFoundException''
               then (Inl (ValueError (''AWS secret not found: '' @ value) (Some (ClientError code m))),
                     emit (Log ERROR (''AWS secret not found: '' @ value)) w')
               else (Inl (ClientError code m),
                     emit (Log ERROR (''Error fetching AWS secret '' @ value @ '': ''
                                       @ exn_str (ClientError code m))) w')
           | r \<Rightarrow> r))"

text \<open>The body of the \<^verbatim>\<open>try\<close> of \<^verbatim>\<open>gcp_secret_helper\<close>.\<close>

definition gcp_try :: "services \<Rightarrow> string \<Rightarrow> world \<Rightarrow> (exn + pyval) \<times> world" where
  "gcp_try svc value w =
     (let project_id = environ_get w ''GOOGLE_CLOUD_PROJECT'' in
      if \<not> truthy_opt project_id
      then (Inl (ValueError ''GOOGLE_CLOUD_PROJECT environment variable must be set'' None), w)
      else
        let name = ''projects/'' @ the project_id @ ''/secrets/'' @ value @ ''/versions/latest'';
            w1 = emit (Request GCP name) w
        in case access_secret_version svc w name of
             Inl e \<Rightarrow> (Inl e, w1)
           | Inr data \<Rightarrow>
               (case decode svc data of
                  Inl e \<Rightarrow> (Inl e, w1)
                | Inr secret_value \<Rightarrow>
                    (Inr (PStr secret_value),
                     emit (Log DEBUG (''Fetched secret from GCP Secret Manager: '' @ value)) w1)))"

definition gcp_secret_helper :: "services \<Rightarrow> string \<Rightarrow> world \<Rightarrow> (exn + pyval) \<times> world" where
  "gcp_secret_helper svc value w =
     (case SecretManagerServiceClient svc w of
        Some e \<Rightarrow> (Inl e, w)
      | None \<Rightarrow>
          (case gcp_try svc value w of
             (Inl e, w') \<Rightarrow>
               (Inl e, emit (Log ERROR (''Error fetching GCP secret '' @ value @ '': '' @ exn_str e)) w')
           | r \<Rightarrow> r))"

text \<open>
  \<^verbatim>\<open>azure_secret_helper\<close>. The \<^verbatim>\<open>value\<close> attribute of the secret may be
  \<^verbatim>\<open>None\<close>.
\<close>

definition azure_secret_helper :: "services \<Rightarrow> string \<Rightarrow> world \<Rightarrow> (exn + pyval) \<times> world" where
  "azure_secret_helper svc value w =
     (let vault_url = environ_get w ''AZURE_KEY_VAULT_URL'' in
      if \<not> truthy_opt vault_url
      then (Inl (ValueError ''AZURE_KEY_VAULT_URL environment variable must be set'' None), w)
      else
        (case SecretClient svc w (the vault_url) of
           Some e \<Rightarrow> (Inl e, w)
         | None \<Rightarrow>
             (let w1 = emit (Request Azure value) w in
              case get_secret svc w (the vault_url) value of
                Inl e \<Rightarrow>
                  (Inl e, emit (Log ERROR (''Error fetching Azure secret '' @ value @ '': '' @ exn_str e)) w1)
              | Inr secret_value \<Rightarrow>
                  (Inr (case secret_value of None \<Rightarrow> PNone | Some s \<Rightarrow> PStr s),
                   emit (Log DEBUG (''Fetched secret from Azure Key Vault: '' @ value)) w1))))"

text \<open>The helper of a store, and the text of its debug record.\<close>

fun secret_helper :: "store \<Rightarrow> services \<Rightarrow> string \<Rightarrow> world \<Rightarrow> (exn + pyval) \<times> world" where
  "secret_helper AWS = aws_secret_helper"
| "secret_helper Azure = azure_secret_helper"
| "secret_helper GCP = gcp_secret_helper"

fun fetched_from :: "store \<Rightarrow> string" where
  "fetched_from AWS = ''Fetched secret from AWS Secrets Manager: ''"
| "fetched_from Azure = ''Fetched secret from Azure Key Vault: ''"
| "fetched_from GCP = ''Fetched secret from GCP Secret Manager: ''"

section \<open>settings.py: resolve\_secrets\<close>

type_synonym payload = "(string \<times> pyval) list"

type_synonym secret_mapping = "(string \<times> string list) list"

text \<open>\<^verbatim>\<open>BaseConfig._get_secret_field_mapping\<close>; no class of the file overrides it.\<close>

definition get_secret_field_mapping :: secret_mapping where
  "get_secret_field_mapping = [(''aws'', []), (''azure'', []), (''gcp'', [])]"

text \<open>\<^verbatim>\<open>d.get(k, default)\<close>.\<close>

definition dict_get :: "('k \<times> 'v) list \<Rightarrow> 'k \<Rightarrow> 'v \<Rightarrow> 'v" where
  "dict_get d k dflt = (case map_of d k of None \<Rightarrow> dflt | Some v \<Rightarrow> v)"

text \<open>
  \<^verbatim>\<open>resolved[field_name] = helper(value)\<close>: the assignment happens only when the
  helper returns.
\<close>

definition assign :: "string \<Rightarrow> payload \<Rightarrow> (exn + pyval) \<times> world \<Rightarrow> (exn + payload) \<times> world" where
  "assign field_name resolved r =
     (case r of
        (Inl e, w) \<Rightarrow> (Inl e, w)
      | (Inr v, w) \<Rightarrow> (Inr (AList.update field_name v resolved), w))"

text \<open>The body of the loop of \<^verbatim>\<open>resolve_secrets\<close>, lines 28 to 39.\<close>

definition resolve_field ::
  "services \<Rightarrow> secret_mapping \<Rightarrow> string \<Rightarrow> pyval \<Rightarrow> payload \<Rightarrow> world \<Rightarrow> (exn + payload) \<times> world" where
  "resolve_field svc secret_mapping field_name value resolved w =
     (if \<not> truthy value \<or> \<not> isinstance_str value
      then (Inr (AList.update field_name value resolved), w)
      else if field_name \<in> set (dict_get secret_mapping ''aws'' [])
      then assign field_name resolved (aws_secret_helper svc (str_of value) w)
      else if field_name \<in> set (dict_get secret_mapping ''azure'' [])
      then assign field_name resolved (azure_secret_helper svc (str_of value) w)
      else if field_name \<in> set (dict_get secret_mapping ''gcp'' [])
      then assign field_name resolved (gcp_secret_helper svc (str_of value) w)
      else (Inr (AList.update field_name value resolved), w))"

text \<open>The loop over \<^verbatim>\<open>data.items()\<close>: an exception of the body leaves the loop.\<close>

fun resolve_loop ::
  "services \<Rightarrow> secret_mapping \<Rightarrow> payload \<Rightarrow> payload \<Rightarrow> world \<Rightarrow> (exn + payload) \<times> world" where
  "resolve_loop svc secret_mapping [] resolved w = (Inr resolved, w)"
| "resolve_loop svc secret_mapping ((field_name, value) # rest) resolved w =
     (case resolve_field svc secret_mapping field_name value resolved w of
        (Inl e, w') \<Rightarrow> (Inl e, w')
      | (Inr resolved', w') \<Rightarrow> resolve_loop svc secret_mapping rest resolved' w')"

definition resolve_secrets ::
  "services \<Rightarrow> secret_mapping \<Rightarrow> payload \<Rightarrow> world \<Rightarrow> (exn + payload) \<times> world" where
  "resolve_secrets svc secret_mapping data w = resolve_loop svc secret_mapping data [] w"

text \<open>
  The store a field name is dispatched to: the order of the \<^verbatim>\<open>if\<close>/\<^verbatim>\<open>elif\<close> chain.
\<close>

definition classify :: "secret_mapping \<Rightarrow> string \<Rightarrow> store option" where
  "classify secret_mapping field_name =
     (if field_name \<in> set (dict_get secret_mapping ''aws'' []) then Some AWS
      else if field_name \<in> set (dict_get secret_mapping ''azure'' []) then Some Azure
      else if field_name \<in> set (dict_get secret_mapping ''gcp'' []) then Some GCP
      else None)"

section \<open>settings.py: get\_config\<close>

text \<open>
  \<^verbatim>\<open>str.lower\<close> on the ASCII letters; every other byte is kept. Python also lowers
  letters outside ASCII, but none of them to a letter of \<^verbatim>\<open>dev\<close>, \<^verbatim>\<open>test\<close> or
  \<^verbatim>\<open>prod\<close>, so the names that reach a class are the same.
\<close>

definition lower_char :: "char \<Rightarrow> char" where
  "lower_char c = (let n = (of_char c :: nat) in if 65 \<le> n \<and> n \<le> 90 then char_of (n + 32) else c)"

definition lower :: "string \<Rightarrow> string" where
  "lower s = map lower_char s"

text \<open>
  One block of lines 103 to 129: copy the prefixed variable onto the plain name when it
  is set and not empty.
\<close>

definition promote :: "string \<Rightarrow> string \<Rightarrow> world \<Rightarrow> world" where
  "promote prefix name w =
     (let v = environ_get w (prefix @ name) in
      if truthy_opt v then w\<lparr>environ := AList.update name (the v) (environ w)\<rparr> else w)"

definition promoted_names :: "string list" where
  "promoted_names =
     [''AWS_ACCESS_KEY_ID'', ''AWS_SECRET_ACCESS_KEY'', ''AWS_SESSION_TOKEN'', ''AWS_REGION'',
      ''GOOGLE_APPLICATION_CREDENTIALS'', ''AZURE_CLIENT_ID'', ''AZURE_CLIENT_SECRET'',
      ''AZURE_TENANT_ID'', ''AZURE_KEY_VAULT_URL'']"

definition promote_credentials :: "string \<Rightarrow> world \<Rightarrow> world" where
  "promote_credentials prefix w = fold (promote prefix) promoted_names w"

datatype config_class = DevConfig | ProdConfig | TestConfig

definition configs :: "(string \<times> config_class) list" where
  "configs = [(''dev'', DevConfig), (''prod'', ProdConfig), (''test'', TestConfig)]"

text \<open>A configuration object: its identity, its class and its validated fields.\<close>

record config =
  obj_id :: nat
  cls_of :: config_class
  field_values :: payload

text \<open>
  What pydantic does around the validator is outside the repository: gathering the raw
  payload of a class from the environment and the \<^verbatim>\<open>.env\<close> file, surfacing an
  exception that leaves a \<^verbatim>\<open>mode="before"\<close> validator, validating the fields.
\<close>

record pydantic =
  settings_values :: "config_class \<Rightarrow> (string \<times> string) list \<Rightarrow> payload"
  validator_failure :: "exn \<Rightarrow> exn"
  validate_fields :: "config_class \<Rightarrow> payload \<Rightarrow> exn + payload"

text \<open>
  \<^verbatim>\<open>configs[env_state]()\<close>, the call of the class: the object is allocated, the
  payload gathered, \<^verbatim>\<open>resolve_secrets\<close> run on it as the class's validator, the
  fields validated.
\<close>

definition construct :: "pydantic \<Rightarrow> services \<Rightarrow> config_class \<Rightarrow> world \<Rightarrow> (exn + config) \<times> world" where
  "construct pyd svc cls w =
     (let oid = allocated w;
          w0 = w\<lparr>allocated := Suc oid\<rparr>;
          data = settings_values pyd cls (environ w0)
      in case resolve_secrets svc get_secret_field_mapping data w0 of
           (Inl e, w1) \<Rightarrow> (Inl (validator_failure pyd e), w1)
         | (Inr resolved, w1) \<Rightarrow>
             (case validate_fields pyd cls resolved of
                Inl e \<Rightarrow> (Inl e, w1)
              | Inr fs \<Rightarrow> (Inr \<lparr>obj_id = oid, cls_of = cls, field_values = fs\<rparr>, w1)))"

text \<open>
  The function under the decorator (\<^verbatim>\<open>get_config.__wrapped__\<close>). Its argument is
  \<^verbatim>\<open>BaseConfig().ENV_STATE\<close>, an \<^verbatim>\<open>Optional[str]\<close>.
\<close>

definition get_config_wrapped ::
  "pydantic \<Rightarrow> services \<Rightarrow> string option \<Rightarrow> world \<Rightarrow> (exn + config) \<times> world" where
  "get_config_wrapped pyd svc env_state w =
     (if \<not> truthy_opt env_state
      then (Inl (ValueError ''ENV_STATE is not set. Possible values are: DEV, TEST, PROD'' None), w)
      else
        let env_state' = lower (the env_state);
            w1 = (if env_state' = ''dev'' then promote_credentials ''DEV_'' w else w)
        in case map_of configs env_state' of
             None \<Rightarrow> (Inl (KeyError env_state'), w1)
           | Some cls \<Rightarrow> construct pyd svc cls w1)"

text \<open>
  \<^verbatim>\<open>functools.lru_cache()\<close> of the standard library, with its default size of 128:
  the entries, most recently used first, keyed by the argument. A hit returns the stored
  object and moves its entry to the front; a miss calls the function and stores the
  result, dropping the least recently used entry when the cache is full; an exception of
  the function passes through and nothing is stored.
\<close>

type_synonym 'v lru = "(string option \<times> 'v) list"

definition maxsize :: nat where
  "maxsize = 128"

definition lru_cache ::
  "(string option \<Rightarrow> world \<Rightarrow> (exn + 'v) \<times> world) \<Rightarrow> string option \<Rightarrow> 'v lru \<Rightarrow> world
     \<Rightarrow> (exn + 'v) \<times> 'v lru \<times> world" where
  "lru_cache f key cache w =
     (case map_of cache key of
        Some v \<Rightarrow> (Inr v, (key, v) # AList.delete key cache, w)
      | None \<Rightarrow>
          (case f key w of
             (Inl e, w') \<Rightarrow> (Inl e, cache, w')
           | (Inr v, w') \<Rightarrow> (Inr v, take maxsize ((key, v) # cache), w')))"

text \<open>\<^verbatim>\<open>get_config\<close> as callers see it, under \<^verbatim>\<open>@lru_cache()\<close>.\<close>

definition get_config ::
  "pydantic \<Rightarrow> services \<Rightarrow> string option \<Rightarrow> config lru \<Rightarrow> world \<Rightarrow> (exn + config) \<times> config lru \<times> world" where
  "get_config pyd svc = lru_cache (get_config_wrapped pyd svc)"

text \<open>
  The environment names \<^verbatim>\<open>get_config\<close> knows: set, not empty, and one of the keys of
  \<^verbatim>\<open>configs\<close> once lowered.
\<close>

definition recognized :: "string option \<Rightarrow> bool" where
  "recognized env_state =
     (truthy_opt env_state \<and> lower (the env_state) \<in> {''dev'', ''test'', ''prod''})"

section \<open>Test doubles\<close>

text \<open>The world before anything has happened.\<close>

definition w_init :: world where
  "w_init = \<lparr>environ = [], trace = [], allocated = 0\<rparr>"

text \<open>
  Stores whose clients always build and whose answer to a request is given by \<open>answer\<close>:
  an exception, or the text of the secret.
\<close>

definition stub_services :: "(world \<Rightarrow> string \<Rightarrow> exn + string) \<Rightarrow> services" where
  "stub_services answer =
     \<lparr>boto3_client = (\<lambda>w. None),
      get_secret_value = (\<lambda>w ref. case answer w ref of Inl e \<Rightarrow> Inl e
                                     | Inr s \<Rightarrow> Inr \<lparr>SecretString = Some s, SecretBinary = None\<rparr>),
      decode = Inr,
      SecretManagerServiceClient = (\<lambda>w. None),
      access_secret_version = (\<lambda>w name. answer w name),
      SecretClient = (\<lambda>w url. None),
      get_secret = (\<lambda>w url name. case answer w name of Inl e \<Rightarrow> Inl e | Inr s \<Rightarrow> Inr (Some s))\<rparr>"

text \<open>A store that is unreachable until its \<open>n\<close>-th request, which it answers.\<close>

definition succeeds_on :: "nat \<Rightarrow> string \<Rightarrow> world \<Rightarrow> string \<Rightarrow> exn + string" where
  "succeeds_on n secret w ref =
     (if Suc (length (requests w)) < n then Inl (OtherException ''ConnectionError'' ''unreachable'')
      else Inr secret)"

text \<open>
  A runtime double. Its product is the exact one, which is the float product wherever
  the exact product is a float (as for the powers of two below). Its sleep refuses, as
  CPython's does, a negative length, one that is not a number, and one of
  \<open>10 ^ 10\<close> seconds or more (beyond 64 bits of nanoseconds); it accepts the others.
\<close>

definition exact_mul :: "pyfloat \<Rightarrow> pyfloat \<Rightarrow> pyfloat" where
  "exact_mul x y = (case (x, y) of (Finite a, Finite b) \<Rightarrow> Finite (a * b) | other \<Rightarrow> NaN)"

definition refusing_sleep :: "pyfloat \<Rightarrow> exn option" where
  "refusing_sleep secs =
     (case secs of
        Finite q \<Rightarrow>
          if 10 ^ 10 \<le> \<bar>q\<bar>
          then Some (OtherException ''OverflowError'' ''timestamp out of range for platform time_t'')
          else if q < 0 then Some (ValueError ''sleep length must be non-negative'' None)
          else None
      | NaN \<Rightarrow> Some (ValueError ''Invalid value NaN (not a number)'' None)
      | other \<Rightarrow> Some (OtherException ''OverflowError'' ''timestamp out of range for platform time_t''))"

definition plain_runtime :: runtime where
  "plain_runtime = \<lparr>float_mul = exact_mul, time_sleep = refusing_sleep\<rparr>"

text \<open>
  An operation that sends one request and fails, every time; its error tells how many
  requests had been sent before.
\<close>

definition nth_failure :: "nat \<Rightarrow> exn" where
  "nth_failure k = ValueError (digits k) None"

definition failing_call :: "world \<Rightarrow> (exn + pyval) \<times> world" where
  "failing_call w = (Inl (nth_failure (length (requests w))), emit (Request AWS ''ref'') w)"

text \<open>A pydantic double: every variable is a field, nothing is rejected or wrapped.\<close>

definition plain_pydantic :: pydantic where
  "plain_pydantic =
     \<lparr>settings_values = (\<lambda>cls env. map (\<lambda>(k, v). (k, PStr v)) env),
      validator_failure = (\<lambda>e. e),
      validate_fields = (\<lambda>cls r. Inr r)\<rparr>"

text \<open>A store that knows no secret: every request is answered "not found".\<close>

definition not_found :: "world \<Rightarrow> string \<Rightarrow> exn + string" where
  "not_found w ref = Inl (ClientError (Some ''ResourceNotFoundException'') ''no such secret'')"

text \<open>The example of the specification: one field bound to the first store.\<close>

definition example_mapping :: secret_mapping where
  "example_mapping = [(''aws'', [''API_KEY''])]"

text \<open>The first store with a fixed answer to every request; bytes decode as they are.\<close>

definition aws_answers :: "exn + aws_response \<Rightarrow> services" where
  "aws_answers a = (stub_services not_found)\<lparr>get_secret_value := (\<lambda>w ref. a)\<rparr>"

text \<open>A pydantic double whose classes require the field \<^verbatim>\<open>DATABASE_URL\<close>.\<close>

definition strict_pydantic :: pydantic where
  "strict_pydantic =
     plain_pydantic\<lparr>validate_fields := (\<lambda>cls r.
        if map_of r ''DATABASE_URL'' = None
        then Inl (OtherException ''ValidationError'' ''DATABASE_URL: Field required'')
        else Inr r)\<rparr>"

section \<open>Events\<close>

declare digits.simps [simp del]

lemma effects_emit:
  "effects (emit (Log l m) w) = effects w"
  "effects (emit (Sleep d) w) = effects w @ [Sleep d]"
  "effects (emit (Request s r) w) = effects w @ [Request s r]"
  by (simp_all add: effects_def emit_def)

lemma logs_emit:
  "logs (emit (Log l m) w) = logs w @ [Log l m]"
  "logs (emit (Sleep d) w) = logs w"
  "logs (emit (Request s r) w) = logs w"
  by (simp_all add: logs_def emit_def)

lemma requests_effects: "requests w = filter is_Request (effects w)"
proof -
  have "\<And>ev. (\<not> is_Log ev \<and> is_Request ev) = is_Request ev"
    by (case_tac ev) simp_all
  then show ?thesis by (simp add: requests_def effects_def)
qed

lemma emit_keeps [simp]:
  "environ (emit ev w) = environ w"
  "allocated (emit ev w) = allocated w"
  by (simp_all add: emit_def)

section \<open>The retry wrapper\<close>

lemma requests_emit:
  "requests (emit (Log l m) w) = requests w"
  "requests (emit (Sleep d) w) = requests w"
  "requests (emit (Request s r) w) = requests w @ [Request s r]"
  by (simp_all add: requests_def emit_def)

text \<open>
  The loop entered at index \<open>k\<close>, in the world and with the delay of invocation
  \<open>k + 1\<close>, on an operation that always fails, when every sleep still to come is
  accepted: it runs to the last index, and its outcome is that of the last invocation.
\<close>

lemma retry_loop_chain:
  assumes fails: "\<forall>w. \<exists>e. fst (fn w) = Inl e"
    and slept: "\<forall>i. Suc i < n \<longrightarrow> time_sleep rt (nth_wait rt delay backoff i) = None"
  shows "k + Suc m = n \<Longrightarrow>
         retry_loop rt (int n) backoff name fn (map int [k..<n]) (nth_wait rt delay backoff k)
           (attempt_world rt (int n) delay backoff name fn w k)
         = (case fn (attempt_world rt (int n) delay backoff name fn w (n - 1)) of
              (Inl e, w') \<Rightarrow> (Inl e, w')
            | (Inr r, w') \<Rightarrow> (Inr (Some r), w'))"
proof (induction m arbitrary: k)
  case 0
  then have n: "n = Suc k" by simp
  obtain e w' where f: "fn (attempt_world rt (int n) delay backoff name fn w k) = (Inl e, w')"
    using fails by (metis fst_conv surj_pair)
  show ?case
    using f by (simp add: n)
next
  case (Suc m)
  then have lt: "Suc k < n" and ne: "int k \<noteq> int n - 1" by auto
  then have idx: "map int [k..<n] = int k # map int [Suc k..<n]"
    by (simp add: upt_conv_Cons)
  obtain e w' where f: "fn (attempt_world rt (int n) delay backoff name fn w k) = (Inl e, w')"
    using fails by (metis fst_conv surj_pair)
  have s: "time_sleep rt (nth_wait rt delay backoff k) = None"
    using slept lt by blast
  have "retry_loop rt (int n) backoff name fn (map int [k..<n]) (nth_wait rt delay backoff k)
           (attempt_world rt (int n) delay backoff name fn w k)
        = retry_loop rt (int n) backoff name fn (map int [Suc k..<n]) (nth_wait rt delay backoff (Suc k))
           (attempt_world rt (int n) delay backoff name fn w (Suc k))"
    unfolding idx by (simp add: f ne s Let_def)
  moreover have "Suc k + Suc m = n" using Suc.prems by simp
  ultimately show ?case
    using Suc.IH[of "Suc k"] by simp
qed

lemma nth_wait_exact:
  assumes "\<forall>j<i. float_mul rt (Finite (d * b ^ j)) (Finite b) = Finite (d * b ^ Suc j)"
  shows "nth_wait rt (Finite d) (Finite b) i = Finite (d * b ^ i)"
  using assms by (induction i) simp_all

text \<open>
  Claim C2, as the code has it. Let an operation fail at every invocation, let
  \<^verbatim>\<open>attempts\<close> be at least one, and let \<^verbatim>\<open>time.sleep\<close> accept each of the
  \<open>attempts - 1\<close> delays. Then the wrapper invokes the operation exactly \<open>attempts\<close>
  times: invocation \<open>i + 1\<close> takes place in \<open>attempt_world ... i\<close>, which is reached
  from invocation \<open>i\<close> by the warning and the sleep of the delay \<open>nth_wait ... (i - 1)\<close>
  and by nothing else, and the outcome of the wrapper is the outcome of invocation
  \<open>attempts\<close>, its error as it is. The delays are \<^verbatim>\<open>delay\<close> multiplied \<open>i\<close> times by
  \<^verbatim>\<open>backoff\<close> as floats: \<open>delay * backoff ^ i\<close> where these products are exact.
\<close>

theorem retry_exhausts_attempts:
  assumes "1 \<le> attempts"
    and "\<forall>w. \<exists>e. fst (fn w) = Inl e"
    and "\<forall>i. Suc i < nat attempts \<longrightarrow> time_sleep rt (nth_wait rt delay backoff i) = None"
  shows "retry rt attempts delay backoff name fn w
           = (case fn (attempt_world rt attempts delay backoff name fn w (nat attempts - 1)) of
                (Inl e, w') \<Rightarrow> (Inl e, w')
              | (Inr r, w') \<Rightarrow> (Inr (Some r), w'))
       \<and> (\<forall>i d b. delay = Finite d \<and> backoff = Finite b
              \<and> (\<forall>j<i. float_mul rt (Finite (d * b ^ j)) (Finite b) = Finite (d * b ^ Suc j))
            \<longrightarrow> nth_wait rt delay backoff i = Finite (d * b ^ i))"
proof -
  define n where "n = nat attempts"
  have a: "attempts = int n" "0 + Suc (n - 1) = n"
    using assms(1) by (simp_all add: n_def)
  have s: "\<forall>i. Suc i < n \<longrightarrow> time_sleep rt (nth_wait rt delay backoff i) = None"
    using assms(3) by (simp add: n_def)
  have "retry rt (int n) delay backoff name fn w
          = retry_loop rt (int n) backoff name fn (map int [0..<n]) (nth_wait rt delay backoff 0)
              (attempt_world rt (int n) delay backoff name fn w 0)"
    by (simp add: retry_def range_py_def)
  then have c1: "retry rt (int n) delay backoff name fn w
           = (case fn (attempt_world rt (int n) delay backoff name fn w (n - 1)) of
                (Inl e, w') \<Rightarrow> (Inl e, w')
              | (Inr r, w') \<Rightarrow> (Inr (Some r), w'))"
    using retry_loop_chain[OF assms(2) s a(2), where name = name and w = w] by simp
  have c2: "\<forall>i d b. delay = Finite d \<and> backoff = Finite b
              \<and> (\<forall>j<i. float_mul rt (Finite (d * b ^ j)) (Finite b) = Finite (d * b ^ Suc j))
            \<longrightarrow> nth_wait rt delay backoff i = Finite (d * b ^ i)"
    using nth_wait_exact[of _ rt] by blast
  show ?thesis
    unfolding a(1) using c1 c2 by simp
qed

theorem retry_exhausts_attempts_witness:
  "fst (retry plain_runtime 3 (Finite (1 / 4)) (Finite 2) ''fetch'' failing_call w_init)
     = Inl (nth_failure 2)
   \<and> effects (snd (retry plain_runtime 3 (Finite (1 / 4)) (Finite 2) ''fetch'' failing_call w_init))
       = [Request AWS ''ref'', Sleep (Finite (1 / 4)), Request AWS ''ref'', Sleep (Finite (1 / 2)),
          Request AWS ''ref'']
   \<and> time_sleep plain_runtime (Finite (1 / 4)) = None
   \<and> time_sleep plain_runtime (Finite (1 / 2)) = None"
proof -
  have w0: "nth_wait plain_runtime (Finite (1 / 4)) (Finite 2) 0 = Finite (1 / 4)"
    and w1: "nth_wait plain_runtime (Finite (1 / 4)) (Finite 2) (Suc 0) = Finite (1 / 2)"
    by (simp_all add: plain_runtime_def exact_mul_def)
  have s: "time_sleep plain_runtime (Finite (1 / 4)) = None"
    "time_sleep plain_runtime (Finite (1 / 2)) = None"
    by (simp_all add: plain_runtime_def refusing_sleep_def)
  have h1: "(1::int) \<le> 3" by simp
  have h2: "\<forall>w. \<exists>e. fst (failing_call w) = Inl e"
    by (simp add: failing_call_def)
  have h3: "\<forall>i. Suc i < nat 3 \<longrightarrow>
              time_sleep plain_runtime (nth_wait plain_runtime (Finite (1 / 4)) (Finite 2) i) = None"
  proof (intro allI impI)
    fix i :: nat assume "Suc i < nat 3"
    then have "i = 0 \<or> i = Suc 0" by auto
    then show "time_sleep plain_runtime (nth_wait plain_runtime (Finite (1 / 4)) (Finite 2) i) = None"
      using w0 w1 s by auto
  qed
  have e0: "effects w_init = []" "requests w_init = []"
    by (simp_all add: w_init_def effects_def requests_def)
  have two: "nat 3 - 1 = Suc (Suc 0)" by simp
  have "retry plain_runtime 3 (Finite (1 / 4)) (Finite 2) ''fetch'' failing_call w_init
          = (case failing_call (attempt_world plain_runtime 3 (Finite (1 / 4)) (Finite 2) ''fetch''
                                  failing_call w_init (Suc (Suc 0))) of
               (Inl e, w') \<Rightarrow> (Inl e, w')
             | (Inr r, w') \<Rightarrow> (Inr (Some r), w'))"
    using retry_exhausts_attempts[OF h1 h2 h3, of "''fetch''" w_init] unfolding two by blast
  then have "fst (retry plain_runtime 3 (Finite (1 / 4)) (Finite 2) ''fetch'' failing_call w_init)
               = Inl (nth_failure (Suc (Suc 0)))"
    and "effects (snd (retry plain_runtime 3 (Finite (1 / 4)) (Finite 2) ''fetch'' failing_call w_init))
       = [Request AWS ''ref'', Sleep (Finite (1 / 4)), Request AWS ''ref'', Sleep (Finite (1 / 2)),
          Request AWS ''ref'']"
    using w1 by (simp_all add: failing_call_def effects_emit requests_emit e0)
  then show ?thesis
    using s by (simp add: numeral_2_eq_2)
qed

text \<open>
  The claim as stated fails where \<^verbatim>\<open>time.sleep\<close> refuses the delay: the refusal is
  raised inside the \<^verbatim>\<open>except\<close> block and leaves the wrapper after the first
  invocation, with the error of the sleep and not that of the operation. A delay of
  \<open>10 ^ 10\<close> seconds (not negative, backoff 1.0, two attempts) is refused as too large;
  a negative delay is refused as such.
\<close>

theorem retry_sleep_refused_counterexample:
  "fst (retry plain_runtime 2 (Finite (10 ^ 10)) (Finite 1) ''fetch'' failing_call w_init)
     = Inl (OtherException ''OverflowError'' ''timestamp out of range for platform time_t'')
   \<and> effects (snd (retry plain_runtime 2 (Finite (10 ^ 10)) (Finite 1) ''fetch'' failing_call w_init))
       = [Request AWS ''ref'']
   \<and> fst (retry plain_runtime 3 (Finite (- 1)) (Finite 2) ''fetch'' failing_call w_init)
       = Inl (ValueError ''sleep length must be non-negative'' None)
   \<and> effects (snd (retry plain_runtime 3 (Finite (- 1)) (Finite 2) ''fetch'' failing_call w_init))
       = [Request AWS ''ref'']"
proof -
  have r: "range_py 2 = [0, 1]" "range_py 3 = [0, 1, 2]"
    by (simp_all add: range_py_def upt_conv_Cons)
  have e0: "effects w_init = []"
    by (simp add: w_init_def effects_def)
  show ?thesis
    by (simp add: retry_def r failing_call_def plain_runtime_def refusing_sleep_def Let_def
        effects_emit e0)
qed

section \<open>The resolution loop\<close>

lemma resolve_field_shape:
  assumes "resolve_field svc m k v acc w = (Inr acc', w')"
  shows "\<exists>v'. acc' = AList.update k v' acc"
  using assms
  by (auto simp: resolve_field_def assign_def split: if_splits prod.splits sum.splits)

lemma resolve_field_passes:
  assumes "\<not> truthy v \<or> \<not> isinstance_str v \<or> classify m k = None"
  shows "resolve_field svc m k v acc w = (Inr (AList.update k v acc), w)"
  using assms
  by (auto simp: resolve_field_def classify_def split: if_splits)

lemma resolve_field_dispatch:
  assumes "classify m k = Some s" and "ref \<noteq> []"
  shows "resolve_field svc m k (PStr ref) acc w = assign k acc (secret_helper s svc ref w)"
  using assms
  by (cases s) (auto simp: resolve_field_def classify_def split: if_splits)

lemma resolve_loop_append:
  "resolve_loop svc m (xs @ ys) acc w =
     (case resolve_loop svc m xs acc w of
        (Inl e, w') \<Rightarrow> (Inl e, w')
      | (Inr acc', w') \<Rightarrow> resolve_loop svc m ys acc' w')"
proof (induction xs arbitrary: acc w)
  case Nil
  show ?case by simp
next
  case (Cons x xs)
  obtain k v where x: "x = (k, v)" by (cases x)
  show ?case
    by (simp add: x Cons.IH split: prod.splits sum.splits)
qed

lemma resolve_loop_other_keys:
  assumes "resolve_loop svc m data acc w = (Inr r, w')" and "k \<notin> fst ` set data"
  shows "map_of r k = map_of acc k"
  using assms
proof (induction data arbitrary: acc w)
  case Nil
  then show ?case by simp
next
  case (Cons x xs)
  obtain k' v' where x: "x = (k', v')" by (cases x)
  from Cons.prems(1) obtain acc1 w1 where
    f: "resolve_field svc m k' v' acc w = (Inr acc1, w1)" and
    l: "resolve_loop svc m xs acc1 w1 = (Inr r, w')"
    by (auto simp: x split: prod.splits sum.splits)
  from resolve_field_shape[OF f] obtain v'' where "acc1 = AList.update k' v'' acc" ..
  moreover have "k \<noteq> k'" "k \<notin> fst ` set xs" using Cons.prems(2) by (auto simp: x)
  ultimately show ?case using Cons.IH[OF l] by (simp add: update_conv')
qed

lemma resolve_loop_keys:
  assumes "resolve_loop svc m data acc w = (Inr r, w')"
  shows "fst ` set r = fst ` set acc \<union> fst ` set data"
  using assms
proof (induction data arbitrary: acc w)
  case Nil
  then show ?case by simp
next
  case (Cons x xs)
  obtain k' v' where x: "x = (k', v')" by (cases x)
  from Cons.prems(1) obtain acc1 w1 where
    f: "resolve_field svc m k' v' acc w = (Inr acc1, w1)" and
    l: "resolve_loop svc m xs acc1 w1 = (Inr r, w')"
    by (auto simp: x split: prod.splits sum.splits)
  from resolve_field_shape[OF f] obtain v'' where "acc1 = AList.update k' v'' acc" ..
  then show ?case using Cons.IH[OF l] by (auto simp: x dom_update)
qed

lemma resolve_loop_passed_value:
  assumes "distinct (map fst data)"
    and "resolve_loop svc m data acc w = (Inr r, w')"
    and "(k, v) \<in> set data"
    and "\<not> truthy v \<or> \<not> isinstance_str v \<or> classify m k = None"
  shows "map_of r k = Some v"
  using assms(1-3)
proof (induction data arbitrary: acc w)
  case Nil
  then show ?case by simp
next
  case (Cons x xs)
  obtain k' v' where x: "x = (k', v')" by (cases x)
  from Cons.prems(2) obtain acc1 w1 where
    f: "resolve_field svc m k' v' acc w = (Inr acc1, w1)" and
    l: "resolve_loop svc m xs acc1 w1 = (Inr r, w')"
    by (auto simp: x split: prod.splits sum.splits)
  show ?case
  proof (cases "(k, v) = (k', v')")
    case True
    then have "acc1 = AList.update k v acc"
      using f resolve_field_passes[OF assms(4), of svc acc w] by simp
    moreover have "k \<notin> fst ` set xs" using Cons.prems(1) True by (simp add: x)
    ultimately show ?thesis using resolve_loop_other_keys[OF l] by (simp add: update_conv')
  next
    case False
    then have "(k, v) \<in> set xs" using Cons.prems(3) by (auto simp: x)
    moreover have "distinct (map fst xs)" using Cons.prems(1) by simp
    ultimately show ?thesis using Cons.IH l by blast
  qed
qed


text \<open>
  Claim C3. Let the fields before \<open>k\<close> have resolved, and let \<open>k\<close> be bound to a store
  and hold a non-empty string whose fetch fails with \<open>e\<close>. Then \<^verbatim>\<open>resolve_secrets\<close>
  raises \<open>e\<close> in the world the failed fetch left: nothing is done for the fields after
  \<open>k\<close>, and no mapping is returned. A mapping that is returned has every field of the
  payload.
\<close>

theorem resolve_secrets_fail_fast:
  assumes "resolve_secrets svc m pre w = (Inr resolved1, w1)"
    and "classify m k = Some s"
    and "ref \<noteq> []"
    and "secret_helper s svc ref w1 = (Inl e, w2)"
  shows "resolve_secrets svc m (pre @ (k, PStr ref) # post) w = (Inl e, w2)
       \<and> (\<forall>data w0 resolved w'. resolve_secrets svc m data w0 = (Inr resolved, w')
             \<longrightarrow> fst ` set resolved = fst ` set data)"
proof -
  have "resolve_field svc m k (PStr ref) resolved1 w1 = (Inl e, w2)"
    using resolve_field_dispatch[OF assms(2,3)] assms(4) by (simp add: assign_def)
  then have "resolve_secrets svc m (pre @ (k, PStr ref) # post) w = (Inl e, w2)"
    using assms(1) by (simp add: resolve_secrets_def resolve_loop_append)
  moreover have "\<forall>data w0 resolved w'. resolve_secrets svc m data w0 = (Inr resolved, w')
             \<longrightarrow> fst ` set resolved = fst ` set data"
    using resolve_loop_keys[of svc m _ "[]"] by (simp add: resolve_secrets_def)
  ultimately show ?thesis by blast
qed

theorem resolve_secrets_fail_fast_witness:
  "resolve_secrets (stub_services not_found) example_mapping
     [(''LOG_LEVEL'', PStr ''INFO''), (''API_KEY'', PStr ''secret-ref-123''), (''REGION'', PStr ''eu'')]
     w_init
   = (Inl (ValueError ''AWS secret not found: secret-ref-123''
             (Some (ClientError (Some ''ResourceNotFoundException'') ''no such secret''))),
      w_init\<lparr>trace := [Request AWS ''secret-ref-123'',
                         Log ERROR ''AWS secret not found: secret-ref-123'']\<rparr>)"
proof -
  have h1: "resolve_secrets (stub_services not_found) example_mapping [(''LOG_LEVEL'', PStr ''INFO'')] w_init
              = (Inr [(''LOG_LEVEL'', PStr ''INFO'')], w_init)"
    by (simp add: resolve_secrets_def resolve_field_def example_mapping_def dict_get_def)
  have h2: "classify example_mapping ''API_KEY'' = Some AWS"
    by (simp add: classify_def example_mapping_def dict_get_def)
  have h3: "''secret-ref-123'' \<noteq> []" by simp
  have h4: "secret_helper AWS (stub_services not_found) ''secret-ref-123'' w_init
              = (Inl (ValueError ''AWS secret not found: secret-ref-123''
                        (Some (ClientError (Some ''ResourceNotFoundException'') ''no such secret''))),
                 w_init\<lparr>trace := [Request AWS ''secret-ref-123'',
                                    Log ERROR ''AWS secret not found: secret-ref-123'']\<rparr>)"
    by (simp add: aws_secret_helper_def aws_try_def stub_services_def not_found_def
        error_code_def emit_def w_init_def)
  show ?thesis
    using resolve_secrets_fail_fast[OF h1 h2 h3 h4, of "[(''REGION'', PStr ''eu'')]"] by simp
qed

text \<open>
  Claim C4. In a payload (a dict: its keys are distinct) that resolves, a field whose
  name is in none of the three lists of the secret mapping keeps its raw value.
\<close>

theorem resolve_secrets_passthrough:
  assumes "distinct (map fst data)"
    and "resolve_secrets svc m data w = (Inr resolved, w')"
    and "(k, v) \<in> set data"
    and "k \<notin> set (dict_get m ''aws'' []) \<union> set (dict_get m ''azure'' []) \<union> set (dict_get m ''gcp'' [])"
  shows "map_of resolved k = Some v"
proof -
  have "classify m k = None"
    using assms(4) by (simp add: classify_def)
  then show ?thesis
    using resolve_loop_passed_value[OF assms(1) _ assms(3)] assms(2)
    by (simp add: resolve_secrets_def)
qed

theorem resolve_secrets_passthrough_witness:
  "resolve_secrets (stub_services (succeeds_on 1 ''abc'')) example_mapping
     [(''API_KEY'', PStr ''secret-ref-123''), (''LOG_LEVEL'', PStr ''INFO'')] w_init
   = (Inr [(''API_KEY'', PStr ''abc''), (''LOG_LEVEL'', PStr ''INFO'')],
      w_init\<lparr>trace := [Request AWS ''secret-ref-123'',
        Log DEBUG ''Fetched secret from AWS Secrets Manager: secret-ref-123'']\<rparr>)
   \<and> map_of [(''API_KEY'', PStr ''abc''), (''LOG_LEVEL'', PStr ''INFO'')] ''LOG_LEVEL''
       = Some (PStr ''INFO'')"
proof -
  have h1: "distinct (map fst [(''API_KEY'', PStr ''secret-ref-123''), (''LOG_LEVEL'', PStr ''INFO'')])"
    by simp
  have h2: "resolve_secrets (stub_services (succeeds_on 1 ''abc'')) example_mapping
              [(''API_KEY'', PStr ''secret-ref-123''), (''LOG_LEVEL'', PStr ''INFO'')] w_init
            = (Inr [(''API_KEY'', PStr ''abc''), (''LOG_LEVEL'', PStr ''INFO'')],
               w_init\<lparr>trace := [Request AWS ''secret-ref-123'',
                 Log DEBUG ''Fetched secret from AWS Secrets Manager: secret-ref-123'']\<rparr>)"
    by (simp add: resolve_secrets_def resolve_field_def example_mapping_def dict_get_def assign_def
        aws_secret_helper_def aws_try_def aws_secret_value_def truthy_opt_def stub_services_def
        succeeds_on_def emit_def w_init_def requests_def)
  have h3: "(''LOG_LEVEL'', PStr ''INFO'')
              \<in> set [(''API_KEY'', PStr ''secret-ref-123''), (''LOG_LEVEL'', PStr ''INFO'')]"
    by simp
  have h4: "''LOG_LEVEL'' \<notin> set (dict_get example_mapping ''aws'' [])
              \<union> set (dict_get example_mapping ''azure'' []) \<union> set (dict_get example_mapping ''gcp'' [])"
    by (simp add: example_mapping_def dict_get_def)
  show ?thesis
    using h2 resolve_secrets_passthrough[OF h1 h2 h3 h4] by blast
qed

text \<open>
  Claim C5. A field whose raw value is \<^verbatim>\<open>None\<close>, false, empty, or not a string is
  passed through by the loop with the world untouched (no request, no log record),
  whatever the secret mapping says of its name; in a payload that resolves, its resolved
  value is its raw value.
\<close>

theorem resolve_secrets_ineligible:
  assumes "distinct (map fst data)"
    and "resolve_secrets svc m data w = (Inr resolved, w')"
    and "(k, v) \<in> set data"
    and "\<not> truthy v \<or> \<not> isinstance_str v"
  shows "map_of resolved k = Some v
       \<and> (\<forall>acc w0. resolve_field svc m k v acc w0 = (Inr (AList.update k v acc), w0))"
proof -
  have "\<not> truthy v \<or> \<not> isinstance_str v \<or> classify m k = None"
    using assms(4) by blast
  moreover have "resolve_loop svc m data [] w = (Inr resolved, w')"
    using assms(2) by (simp add: resolve_secrets_def)
  ultimately have "map_of resolved k = Some v"
    using resolve_loop_passed_value[OF assms(1) _ assms(3)] by blast
  moreover have "\<forall>acc w0. resolve_field svc m k v acc w0 = (Inr (AList.update k v acc), w0)"
    using resolve_field_passes[of v m k svc] assms(4) by blast
  ultimately show ?thesis by blast
qed

theorem resolve_secrets_ineligible_witness:
  "map_of [(''API_KEY'', PStr []), (''FLAG'', PBool True)] ''API_KEY'' = Some (PStr [])
   \<and> resolve_field (stub_services not_found) example_mapping ''API_KEY'' (PStr []) [] w_init
       = (Inr [(''API_KEY'', PStr [])], w_init)"
proof -
  have h1: "distinct (map fst [(''API_KEY'', PStr []), (''FLAG'', PBool True)])"
    by simp
  have h2: "resolve_secrets (stub_services not_found) example_mapping
              [(''API_KEY'', PStr []), (''FLAG'', PBool True)] w_init
            = (Inr [(''API_KEY'', PStr []), (''FLAG'', PBool True)], w_init)"
    by (simp add: resolve_secrets_def resolve_field_def)
  have h3: "(''API_KEY'', PStr []) \<in> set [(''API_KEY'', PStr []), (''FLAG'', PBool True)]"
    by simp
  have h4: "\<not> truthy (PStr []) \<or> \<not> isinstance_str (PStr [])"
    by simp
  show ?thesis
    using resolve_secrets_ineligible[OF h1 h2 h3 h4] by simp
qed

section \<open>The secret helpers\<close>

lemma aws_secret_helper_effects:
  "effects (snd (aws_secret_helper svc value w)) = effects w
   \<or> effects (snd (aws_secret_helper svc value w)) = effects w @ [Request AWS value]"
  by (auto simp: aws_secret_helper_def aws_try_def effects_emit Let_def
      split: option.splits sum.splits exn.splits prod.splits if_splits)

lemma gcp_secret_helper_effects:
  "effects (snd (gcp_secret_helper svc value w)) = effects w
   \<or> (\<exists>name. effects (snd (gcp_secret_helper svc value w)) = effects w @ [Request GCP name])"
  by (auto simp: gcp_secret_helper_def gcp_try_def effects_emit Let_def
      split: option.splits sum.splits prod.splits if_splits)

lemma azure_secret_helper_effects:
  "effects (snd (azure_secret_helper svc value w)) = effects w
   \<or> effects (snd (azure_secret_helper svc value w)) = effects w @ [Request Azure value]"
  by (auto simp: azure_secret_helper_def effects_emit Let_def
      split: option.splits sum.splits prod.splits if_splits)

lemma secret_helper_effects:
  "effects (snd (secret_helper s svc ref w)) = effects w
   \<or> (\<exists>name. effects (snd (secret_helper s svc ref w)) = effects w @ [Request s name])"
  using aws_secret_helper_effects[of svc ref w] gcp_secret_helper_effects[of svc ref w]
    azure_secret_helper_effects[of svc ref w]
  by (cases s) auto

lemma aws_secret_helper_log:
  assumes "fst (aws_secret_helper svc value w) = Inr v"
  shows "logs (snd (aws_secret_helper svc value w))
           = logs w @ [Log DEBUG (''Fetched secret from AWS Secrets Manager: '' @ value)]"
  using assms
  by (auto simp: aws_secret_helper_def aws_try_def logs_emit Let_def
      split: option.splits sum.splits exn.splits prod.splits if_splits)

lemma gcp_secret_helper_log:
  assumes "fst (gcp_secret_helper svc value w) = Inr v"
  shows "logs (snd (gcp_secret_helper svc value w))
           = logs w @ [Log DEBUG (''Fetched secret from GCP Secret Manager: '' @ value)]"
  using assms
  by (auto simp: gcp_secret_helper_def gcp_try_def logs_emit Let_def
      split: option.splits sum.splits prod.splits if_splits)

lemma azure_secret_helper_log:
  assumes "fst (azure_secret_helper svc value w) = Inr v"
  shows "logs (snd (azure_secret_helper svc value w))
           = logs w @ [Log DEBUG (''Fetched secret from Azure Key Vault: '' @ value)]"
  using assms
  by (auto simp: azure_secret_helper_def logs_emit Let_def
      split: option.splits sum.splits prod.splits if_splits)

lemma secret_helper_log:
  assumes "fst (secret_helper s svc value w) = Inr v"
  shows "logs (snd (secret_helper s svc value w)) = logs w @ [Log DEBUG (fetched_from s @ value)]"
  using assms aws_secret_helper_log gcp_secret_helper_log azure_secret_helper_log
  by (cases s) auto

text \<open>
  Claim C1, as the code has it. For a field bound to a store and holding a non-empty
  string, the loop calls the store's helper directly, with no retry wrapper around it:
  the helper sends one request at most and never sleeps, and the field resolves, to the
  value fetched, exactly when that one call returns; when the call raises, its error is
  the outcome.
\<close>

theorem resolve_field_calls_helper_once:
  assumes "classify m k = Some s" and "ref \<noteq> []"
  shows "resolve_field svc m k (PStr ref) acc w = assign k acc (secret_helper s svc ref w)
       \<and> resolve_secrets svc m [(k, PStr ref)] w
           = (case secret_helper s svc ref w of
                (Inl e, w') \<Rightarrow> (Inl e, w')
              | (Inr v, w') \<Rightarrow> (Inr [(k, v)], w'))
       \<and> (effects (snd (secret_helper s svc ref w)) = effects w
            \<or> (\<exists>name. effects (snd (secret_helper s svc ref w)) = effects w @ [Request s name]))"
proof -
  have d: "\<And>acc. resolve_field svc m k (PStr ref) acc w = assign k acc (secret_helper s svc ref w)"
    by (rule resolve_field_dispatch[OF assms])
  have "resolve_secrets svc m [(k, PStr ref)] w
           = (case secret_helper s svc ref w of
                (Inl e, w') \<Rightarrow> (Inl e, w')
              | (Inr v, w') \<Rightarrow> (Inr [(k, v)], w'))"
    by (simp add: resolve_secrets_def d assign_def split: prod.splits sum.splits)
  then show ?thesis
    using d secret_helper_effects[of s svc ref w] by blast
qed

theorem resolve_field_calls_helper_once_witness:
  "resolve_field (stub_services (succeeds_on 1 ''abc'')) example_mapping ''API_KEY''
     (PStr ''secret-ref-123'') [] w_init
   = (Inr [(''API_KEY'', PStr ''abc'')],
      w_init\<lparr>trace := [Request AWS ''secret-ref-123'',
        Log DEBUG ''Fetched secret from AWS Secrets Manager: secret-ref-123'']\<rparr>)"
proof -
  have h1: "classify example_mapping ''API_KEY'' = Some AWS"
    by (simp add: classify_def example_mapping_def dict_get_def)
  have h2: "''secret-ref-123'' \<noteq> []" by simp
  have "secret_helper AWS (stub_services (succeeds_on 1 ''abc'')) ''secret-ref-123'' w_init
          = (Inr (PStr ''abc''),
             w_init\<lparr>trace := [Request AWS ''secret-ref-123'',
               Log DEBUG ''Fetched secret from AWS Secrets Manager: secret-ref-123'']\<rparr>)"
    by (simp add: aws_secret_helper_def aws_try_def aws_secret_value_def truthy_opt_def
        stub_services_def succeeds_on_def emit_def w_init_def)
  then show ?thesis
    using resolve_field_calls_helper_once[OF h1 h2, of "stub_services (succeeds_on 1 ''abc'')" "[]" w_init]
    by (simp add: assign_def)
qed

text \<open>
  A store that answers its second request: under \<^verbatim>\<open>retry\<close> with the default policy
  the fetch returns after two requests, but \<^verbatim>\<open>resolve_secrets\<close> fails on the first.
\<close>

theorem resolve_secrets_retry_counterexample:
  "fst (retry_default plain_runtime ''aws_secret_helper''
          (aws_secret_helper (stub_services (succeeds_on 2 ''abc'')) ''secret-ref-123'') w_init)
     = Inr (Some (PStr ''abc''))
   \<and> resolve_secrets (stub_services (succeeds_on 2 ''abc'')) example_mapping
        [(''API_KEY'', PStr ''secret-ref-123'')] w_init
     = (Inl (OtherException ''ConnectionError'' ''unreachable''),
        w_init\<lparr>trace := [Request AWS ''secret-ref-123'']\<rparr>)"
proof -
  have r: "range_py 3 = [0, 1, 2]"
    by (simp add: range_py_def upt_conv_Cons)
  have "fst (retry_default plain_runtime ''aws_secret_helper''
          (aws_secret_helper (stub_services (succeeds_on 2 ''abc'')) ''secret-ref-123'') w_init)
     = Inr (Some (PStr ''abc''))"
    by (simp add: retry_default_def retry_def r plain_runtime_def refusing_sleep_def
        aws_secret_helper_def aws_try_def
        aws_secret_value_def truthy_opt_def stub_services_def succeeds_on_def emit_def w_init_def
        requests_def)
  moreover have "resolve_secrets (stub_services (succeeds_on 2 ''abc'')) example_mapping
        [(''API_KEY'', PStr ''secret-ref-123'')] w_init
     = (Inl (OtherException ''ConnectionError'' ''unreachable''),
        w_init\<lparr>trace := [Request AWS ''secret-ref-123'']\<rparr>)"
    by (simp add: resolve_secrets_def resolve_field_def example_mapping_def dict_get_def assign_def
        aws_secret_helper_def aws_try_def stub_services_def succeeds_on_def emit_def w_init_def
        requests_def)
  ultimately show ?thesis by blast
qed

text \<open>
  Claim C8. With the client built, \<^verbatim>\<open>aws_secret_helper\<close> turns the answer to its
  request into its outcome: a \<^verbatim>\<open>ClientError\<close> whose code is
  \<^verbatim>\<open>ResourceNotFoundException\<close> becomes the not-found error, a \<^verbatim>\<open>ValueError\<close>
  whose text carries the reference; any other \<^verbatim>\<open>ClientError\<close> is raised again as
  it is; a response with a non-empty \<^verbatim>\<open>SecretString\<close> gives that text; without one,
  a non-empty \<^verbatim>\<open>SecretBinary\<close> gives its decoded text; with neither, the helper
  raises the error that the secret has no content.
\<close>

theorem aws_secret_helper_outcomes:
  assumes "boto3_client svc w = None"
  shows "(get_secret_value svc w ref = Inl (ClientError code msg)
            \<and> error_code code = ''ResourceNotFoundException''
          \<longrightarrow> fst (aws_secret_helper svc ref w)
                = Inl (ValueError (''AWS secret not found: '' @ ref) (Some (ClientError code msg))))
       \<and> (get_secret_value svc w ref = Inl (ClientError code msg)
            \<and> error_code code \<noteq> ''ResourceNotFoundException''
          \<longrightarrow> fst (aws_secret_helper svc ref w) = Inl (ClientError code msg))
       \<and> (get_secret_value svc w ref = Inr response
            \<and> SecretString response = Some secret \<and> secret \<noteq> []
          \<longrightarrow> fst (aws_secret_helper svc ref w) = Inr (PStr secret))
       \<and> (get_secret_value svc w ref = Inr response
            \<and> SecretString response \<in> {None, Some []}
            \<and> SecretBinary response = Some binary \<and> binary \<noteq> [] \<and> decode svc binary = Inr secret
          \<longrightarrow> fst (aws_secret_helper svc ref w) = Inr (PStr secret))
       \<and> (get_secret_value svc w ref = Inr response
            \<and> SecretString response \<in> {None, Some []} \<and> SecretBinary response \<in> {None, Some []}
          \<longrightarrow> fst (aws_secret_helper svc ref w)
                = Inl (ValueError (''AWS secret '' @ ref @ '' has no SecretString or SecretBinary'') None))"
  using assms
  by (auto simp: aws_secret_helper_def aws_try_def aws_secret_value_def truthy_opt_def Let_def
      split: option.splits)

theorem aws_secret_helper_outcomes_witness:
  "fst (aws_secret_helper
          (aws_answers (Inl (ClientError (Some ''ResourceNotFoundException'') ''no such secret'')))
          ''db-pass'' w_init)
     = Inl (ValueError ''AWS secret not found: db-pass''
              (Some (ClientError (Some ''ResourceNotFoundException'') ''no such secret'')))
   \<and> fst (aws_secret_helper
            (aws_answers (Inl (ClientError (Some ''AccessDeniedException'') ''denied'')))
            ''db-pass'' w_init)
     = Inl (ClientError (Some ''AccessDeniedException'') ''denied'')
   \<and> fst (aws_secret_helper
            (aws_answers (Inr \<lparr>SecretString = Some ''abc'', SecretBinary = None\<rparr>))
            ''db-pass'' w_init)
     = Inr (PStr ''abc'')
   \<and> fst (aws_secret_helper
            (aws_answers (Inr \<lparr>SecretString = None, SecretBinary = Some ''xyz''\<rparr>))
            ''db-pass'' w_init)
     = Inr (PStr ''xyz'')
   \<and> fst (aws_secret_helper
            (aws_answers (Inr \<lparr>SecretString = None, SecretBinary = None\<rparr>))
            ''db-pass'' w_init)
     = Inl (ValueError ''AWS secret db-pass has no SecretString or SecretBinary'' None)"
proof -
  have built: "\<And>a. boto3_client (aws_answers a) w_init = None"
    by (simp add: aws_answers_def stub_services_def)
  have asked: "\<And>a. get_secret_value (aws_answers a) w_init ''db-pass'' = a"
    by (simp add: aws_answers_def)
  have decoded: "\<And>a. decode (aws_answers a) ''xyz'' = Inr ''xyz''"
    by (simp add: aws_answers_def stub_services_def)
  have c1: "error_code (Some ''ResourceNotFoundException'') = ''ResourceNotFoundException''"
    and c2: "error_code (Some ''AccessDeniedException'') \<noteq> ''ResourceNotFoundException''"
    by (simp_all add: error_code_def)
  note t = aws_secret_helper_outcomes[OF built, where ref = "''db-pass''"]
  have "fst (aws_secret_helper
          (aws_answers (Inl (ClientError (Some ''ResourceNotFoundException'') ''no such secret'')))
          ''db-pass'' w_init)
     = Inl (ValueError ''AWS secret not found: db-pass''
              (Some (ClientError (Some ''ResourceNotFoundException'') ''no such secret'')))"
    using t[where code = "Some ''ResourceNotFoundException''" and msg = "''no such secret''"] c1
    by (simp add: asked)
  moreover have "fst (aws_secret_helper
            (aws_answers (Inl (ClientError (Some ''AccessDeniedException'') ''denied'')))
            ''db-pass'' w_init)
     = Inl (ClientError (Some ''AccessDeniedException'') ''denied'')"
    using t[where code = "Some ''AccessDeniedException''" and msg = "''denied''"] c2
    by (simp add: asked)
  moreover have "fst (aws_secret_helper
            (aws_answers (Inr \<lparr>SecretString = Some ''abc'', SecretBinary = None\<rparr>))
            ''db-pass'' w_init)
     = Inr (PStr ''abc'')"
    using t[where response = "\<lparr>SecretString = Some ''abc'', SecretBinary = None\<rparr>" and secret = "''abc''"]
    by (simp add: asked)
  moreover have "fst (aws_secret_helper
            (aws_answers (Inr \<lparr>SecretString = None, SecretBinary = Some ''xyz''\<rparr>))
            ''db-pass'' w_init)
     = Inr (PStr ''xyz'')"
    using t[where response = "\<lparr>SecretString = None, SecretBinary = Some ''xyz''\<rparr>"
        and secret = "''xyz''" and binary = "''xyz''"]
    by (simp add: asked decoded)
  moreover have "fst (aws_secret_helper
            (aws_answers (Inr \<lparr>SecretString = None, SecretBinary = None\<rparr>))
            ''db-pass'' w_init)
     = Inl (ValueError ''AWS secret db-pass has no SecretString or SecretBinary'' None)"
    using t[where response = "\<lparr>SecretString = None, SecretBinary = None\<rparr>"]
    by (simp add: asked)
  ultimately show ?thesis by blast
qed

text \<open>
  Claim C9. A fetch that returns, from any of the three stores, hands the logger one
  record: a debug record naming the store and the reference. The record does not depend
  on the secret: two fetches of one reference that return, whatever each returns, leave
  the same log behind when they started from the same log.
\<close>

theorem fetch_log_independent_of_secret:
  assumes "fst (secret_helper s svc1 ref w1) = Inr v1"
    and "fst (secret_helper s svc2 ref w2) = Inr v2"
    and "logs w1 = logs w2"
  shows "logs (snd (secret_helper s svc1 ref w1)) = logs w1 @ [Log DEBUG (fetched_from s @ ref)]
       \<and> logs (snd (secret_helper s svc1 ref w1)) = logs (snd (secret_helper s svc2 ref w2))"
  using secret_helper_log[OF assms(1)] secret_helper_log[OF assms(2)] assms(3) by simp

theorem fetch_log_independent_of_secret_witness:
  "fst (secret_helper GCP (stub_services (succeeds_on 1 ''abc'')) ''db-pass''
          (w_init\<lparr>environ := [(''GOOGLE_CLOUD_PROJECT'', ''p1'')]\<rparr>)) = Inr (PStr ''abc'')
   \<and> fst (secret_helper GCP (stub_services (succeeds_on 1 ''hunter2'')) ''db-pass''
          (w_init\<lparr>environ := [(''GOOGLE_CLOUD_PROJECT'', ''p1'')]\<rparr>)) = Inr (PStr ''hunter2'')
   \<and> logs (snd (secret_helper GCP (stub_services (succeeds_on 1 ''abc'')) ''db-pass''
          (w_init\<lparr>environ := [(''GOOGLE_CLOUD_PROJECT'', ''p1'')]\<rparr>)))
       = [Log DEBUG ''Fetched secret from GCP Secret Manager: db-pass'']
   \<and> logs (snd (secret_helper GCP (stub_services (succeeds_on 1 ''hunter2'')) ''db-pass''
          (w_init\<lparr>environ := [(''GOOGLE_CLOUD_PROJECT'', ''p1'')]\<rparr>)))
       = [Log DEBUG ''Fetched secret from GCP Secret Manager: db-pass'']"
proof -
  define w where "w = w_init\<lparr>environ := [(''GOOGLE_CLOUD_PROJECT'', ''p1'')]\<rparr>"
  have h: "\<And>x. fst (secret_helper GCP (stub_services (succeeds_on 1 x)) ''db-pass'' w) = Inr (PStr x)"
    by (simp add: gcp_secret_helper_def gcp_try_def environ_get_def truthy_opt_def
        stub_services_def succeeds_on_def w_def w_init_def)
  have l: "logs w = []"
    by (simp add: logs_def w_def w_init_def)
  note t = fetch_log_independent_of_secret[OF h[of "''abc''"] h[of "''hunter2''"] refl]
  have a: "logs (snd (secret_helper GCP (stub_services (succeeds_on 1 ''abc'')) ''db-pass'' w))
             = [Log DEBUG ''Fetched secret from GCP Secret Manager: db-pass'']"
    using t by (simp add: l)
  have b: "logs (snd (secret_helper GCP (stub_services (succeeds_on 1 ''hunter2'')) ''db-pass'' w))
             = [Log DEBUG ''Fetched secret from GCP Secret Manager: db-pass'']"
    using t a by metis
  show ?thesis
    unfolding w_def[symmetric] using h[of "''abc''"] h[of "''hunter2''"] a b by blast
qed

section \<open>The cached configuration\<close>

lemma secret_helper_allocated:
  "allocated (snd (secret_helper s svc ref w)) = allocated w"
proof (cases s)
  case AWS
  then show ?thesis
    by (auto simp: aws_secret_helper_def aws_try_def Let_def
        split: option.splits sum.splits exn.splits prod.splits if_splits)
next
  case Azure
  then show ?thesis
    by (auto simp: azure_secret_helper_def Let_def
        split: option.splits sum.splits prod.splits if_splits)
next
  case GCP
  then show ?thesis
    by (auto simp: gcp_secret_helper_def gcp_try_def Let_def
        split: option.splits sum.splits prod.splits if_splits)
qed

lemma assign_allocated:
  "allocated (snd (assign k acc r)) = allocated (snd r)"
  by (auto simp: assign_def split: prod.splits sum.splits)

lemma resolve_field_allocated:
  "allocated (snd (resolve_field svc m k v acc w)) = allocated w"
  using secret_helper_allocated[of AWS svc "str_of v" w]
    secret_helper_allocated[of Azure svc "str_of v" w]
    secret_helper_allocated[of GCP svc "str_of v" w]
  by (simp add: resolve_field_def assign_allocated)

lemma resolve_loop_allocated:
  "allocated (snd (resolve_loop svc m data acc w)) = allocated w"
proof (induction data arbitrary: acc w)
  case Nil
  show ?case by simp
next
  case (Cons x xs)
  obtain k v where x: "x = (k, v)" by (cases x)
  obtain r w1 where f: "resolve_field svc m k v acc w = (r, w1)"
    by (cases "resolve_field svc m k v acc w")
  have "allocated w1 = allocated w"
    using resolve_field_allocated[of svc m k v acc w] f by simp
  then show ?case
    using Cons.IH by (cases r) (simp_all add: x f)
qed

lemma promote_allocated: "allocated (promote prefix name w) = allocated w"
  by (simp add: promote_def Let_def)

lemma promote_trace: "trace (promote prefix name w) = trace w"
  by (simp add: promote_def Let_def)

lemma promote_credentials_allocated: "allocated (promote_credentials prefix w) = allocated w"
proof -
  have "\<And>names. allocated (fold (promote prefix) names w) = allocated w"
  proof -
    fix names show "allocated (fold (promote prefix) names w) = allocated w"
      by (induction names arbitrary: w) (simp_all add: promote_allocated)
  qed
  then show ?thesis by (simp add: promote_credentials_def)
qed

lemma construct_allocated:
  "allocated (snd (construct pyd svc cls w)) = Suc (allocated w)"
proof -
  define w0 where "w0 = w\<lparr>allocated := Suc (allocated w)\<rparr>"
  define data where "data = settings_values pyd cls (environ w0)"
  obtain r w1 where rs: "resolve_secrets svc get_secret_field_mapping data w0 = (r, w1)"
    by (cases "resolve_secrets svc get_secret_field_mapping data w0")
  have "allocated w1 = allocated w0"
    using resolve_loop_allocated[of svc get_secret_field_mapping data "[]" w0] rs
    by (simp add: resolve_secrets_def)
  then have "allocated w1 = Suc (allocated w)" by (simp add: w0_def)
  then show ?thesis
    using rs unfolding construct_def Let_def w0_def[symmetric] data_def[symmetric]
    by (auto split: sum.splits)
qed

lemma recognized_configs:
  "recognized env_state \<longleftrightarrow> truthy_opt env_state \<and> map_of configs (lower (the env_state)) \<noteq> None"
  by (auto simp: recognized_def configs_def)

lemma get_config_wrapped_allocated:
  "allocated (snd (get_config_wrapped pyd svc env_state w))
     = (if recognized env_state then Suc (allocated w) else allocated w)"
  by (auto simp: get_config_wrapped_def recognized_configs Let_def construct_allocated
      promote_credentials_allocated split: option.splits)

lemma get_config_wrapped_returns:
  assumes "get_config_wrapped pyd svc env_state w = (Inr obj, w')"
  shows "recognized env_state"
  using assms
  by (auto simp: get_config_wrapped_def recognized_configs Let_def split: option.splits if_splits)

lemma get_config_wrapped_rejects:
  assumes "\<not> recognized env_state"
  shows "get_config_wrapped pyd svc env_state w
           = (Inl (if truthy_opt env_state then KeyError (lower (the env_state))
                   else ValueError ''ENV_STATE is not set. Possible values are: DEV, TEST, PROD'' None),
              w)"
proof (cases "truthy_opt env_state")
  case False
  then show ?thesis by (simp add: get_config_wrapped_def)
next
  case True
  then have n: "map_of configs (lower (the env_state)) = None"
    using assms by (simp add: recognized_configs)
  have "lower (the env_state) \<noteq> ''dev''"
    using assms True by (auto simp: recognized_def)
  then show ?thesis
    using True n by (simp add: get_config_wrapped_def Let_def)
qed

lemma get_config_keeps_recognized:
  assumes "\<forall>k \<in> fst ` set cache. recognized k"
    and "get_config pyd svc env_state cache w = (r, cache', w')"
  shows "\<forall>k \<in> fst ` set cache'. recognized k"
proof (cases "map_of cache env_state")
  case (Some v)
  then have "env_state \<in> fst ` set cache"
    by (metis map_of_eq_None_iff option.distinct(1))
  moreover have "cache' = (env_state, v) # AList.delete env_state cache"
    using assms(2) Some by (auto simp: get_config_def lru_cache_def)
  moreover have "fst ` set cache' \<subseteq> insert env_state (fst ` set cache)"
    using dom_delete_subset[of env_state cache] calculation(2) by auto
  ultimately show ?thesis
    using assms(1) by blast
next
  case None
  obtain r0 w0 where g: "get_config_wrapped pyd svc env_state w = (r0, w0)"
    by (cases "get_config_wrapped pyd svc env_state w")
  show ?thesis
  proof (cases r0)
    case (Inl e)
    then have "cache' = cache"
      using assms(2) None g by (auto simp: get_config_def lru_cache_def)
    then show ?thesis using assms(1) by simp
  next
    case (Inr obj)
    then have "cache' = take maxsize ((env_state, obj) # cache)"
      using assms(2) None g by (auto simp: get_config_def lru_cache_def)
    moreover have "recognized env_state"
      using get_config_wrapped_returns g Inr by blast
    ultimately show ?thesis
      using assms(1) by (auto dest!: in_set_takeD)
  qed
qed

lemma lru_cache_hit:
  assumes "map_of cache key = Some v"
  shows "lru_cache f key cache w = (Inr v, (key, v) # AList.delete key cache, w)"
  using assms by (simp add: lru_cache_def)

lemma lower_examples:
  "lower ''PROD'' = ''prod''" "lower ''Staging'' = ''staging''"
  by code_simp+

text \<open>
  Claim C6. When a call of \<^verbatim>\<open>get_config\<close> has returned an object, the next call with
  the same argument returns that very object (the same identity, class and fields) and
  leaves the cache and the world as they were: nothing is allocated, gathered or
  resolved again. Over the two calls the class is instantiated once at most (not at all
  when the first call was itself served from the cache).
\<close>

theorem get_config_memoized:
  assumes "get_config pyd svc env_state cache w = (Inr obj, cache1, w1)"
  shows "get_config pyd svc env_state cache1 w1 = (Inr obj, cache1, w1)
       \<and> allocated w1 \<le> Suc (allocated w)"
proof (cases "map_of cache env_state")
  case (Some v)
  then have r: "obj = v" "cache1 = (env_state, v) # AList.delete env_state cache" "w1 = w"
    using assms by (auto simp: get_config_def lru_cache_def)
  have "map_of cache1 env_state = Some obj" by (simp add: r)
  then have "get_config pyd svc env_state cache1 w1
               = (Inr obj, (env_state, obj) # AList.delete env_state cache1, w1)"
    unfolding get_config_def by (rule lru_cache_hit)
  then show ?thesis by (simp add: r delete_idem)
next
  case None
  obtain r0 w0 where g: "get_config_wrapped pyd svc env_state w = (r0, w0)"
    by (cases "get_config_wrapped pyd svc env_state w")
  have r: "r0 = Inr obj" "cache1 = take maxsize ((env_state, obj) # cache)" "w0 = w1"
    using assms None g by (auto simp: get_config_def lru_cache_def split: sum.splits)
  have c: "cache1 = (env_state, obj) # take 127 cache"
    by (simp add: r maxsize_def)
  have "env_state \<notin> fst ` set cache"
    using None by (simp add: map_of_eq_None_iff)
  then have "env_state \<notin> fst ` set (take 127 cache)"
    by (auto dest!: in_set_takeD)
  then have d: "AList.delete env_state (take 127 cache) = take 127 cache"
    by simp
  have "map_of cache1 env_state = Some obj" by (simp add: c)
  then have "get_config pyd svc env_state cache1 w1
               = (Inr obj, (env_state, obj) # AList.delete env_state cache1, w1)"
    unfolding get_config_def by (rule lru_cache_hit)
  moreover have "allocated w1 \<le> Suc (allocated w)"
    using get_config_wrapped_allocated[of pyd svc env_state w] g r by simp
  ultimately show ?thesis by (simp add: d c)
qed

theorem get_config_memoized_witness:
  "get_config plain_pydantic (stub_services not_found) (Some ''PROD'') []
     (w_init\<lparr>environ := [(''PROD_LOG_LEVEL'', ''WARNING'')]\<rparr>)
   = (Inr \<lparr>obj_id = 0, cls_of = ProdConfig, field_values = [(''PROD_LOG_LEVEL'', PStr ''WARNING'')]\<rparr>,
      [(Some ''PROD'',
        \<lparr>obj_id = 0, cls_of = ProdConfig, field_values = [(''PROD_LOG_LEVEL'', PStr ''WARNING'')]\<rparr>)],
      \<lparr>environ = [(''PROD_LOG_LEVEL'', ''WARNING'')], trace = [], allocated = 1\<rparr>)
   \<and> get_config plain_pydantic (stub_services not_found) (Some ''PROD'')
       [(Some ''PROD'',
         \<lparr>obj_id = 0, cls_of = ProdConfig, field_values = [(''PROD_LOG_LEVEL'', PStr ''WARNING'')]\<rparr>)]
       \<lparr>environ = [(''PROD_LOG_LEVEL'', ''WARNING'')], trace = [], allocated = 1\<rparr>
   = (Inr \<lparr>obj_id = 0, cls_of = ProdConfig, field_values = [(''PROD_LOG_LEVEL'', PStr ''WARNING'')]\<rparr>,
      [(Some ''PROD'',
        \<lparr>obj_id = 0, cls_of = ProdConfig, field_values = [(''PROD_LOG_LEVEL'', PStr ''WARNING'')]\<rparr>)],
      \<lparr>environ = [(''PROD_LOG_LEVEL'', ''WARNING'')], trace = [], allocated = 1\<rparr>)"
proof -
  have h: "get_config plain_pydantic (stub_services not_found) (Some ''PROD'') []
     (w_init\<lparr>environ := [(''PROD_LOG_LEVEL'', ''WARNING'')]\<rparr>)
   = (Inr \<lparr>obj_id = 0, cls_of = ProdConfig, field_values = [(''PROD_LOG_LEVEL'', PStr ''WARNING'')]\<rparr>,
      [(Some ''PROD'',
        \<lparr>obj_id = 0, cls_of = ProdConfig, field_values = [(''PROD_LOG_LEVEL'', PStr ''WARNING'')]\<rparr>)],
      \<lparr>environ = [(''PROD_LOG_LEVEL'', ''WARNING'')], trace = [], allocated = 1\<rparr>)"
    by (simp add: get_config_def lru_cache_def get_config_wrapped_def truthy_opt_def lower_examples
        configs_def construct_def plain_pydantic_def resolve_secrets_def resolve_field_def
        get_secret_field_mapping_def dict_get_def w_init_def maxsize_def)
  show ?thesis
    using h get_config_memoized[OF h] by blast
qed

text \<open>
  Claim C7. Let the cache hold recognized names only, as every cache that calls of
  \<^verbatim>\<open>get_config\<close> have filled does. For an argument that is \<^verbatim>\<open>None\<close>, empty, or
  not dev, test or prod once lowered, \<^verbatim>\<open>get_config\<close> raises, a \<^verbatim>\<open>ValueError\<close> for
  a missing name and the \<^verbatim>\<open>KeyError\<close> of the lookup in \<^verbatim>\<open>configs\<close> for an unknown
  one, and the cache and the world are as before the call: no class was instantiated,
  no payload gathered, no store asked.
\<close>

theorem get_config_rejects_unrecognized:
  assumes "\<not> recognized env_state"
    and "\<forall>k \<in> fst ` set cache. recognized k"
  shows "get_config pyd svc env_state cache w
           = (Inl (if truthy_opt env_state then KeyError (lower (the env_state))
                   else ValueError ''ENV_STATE is not set. Possible values are: DEV, TEST, PROD'' None),
              cache, w)"
proof -
  have "env_state \<notin> fst ` set cache"
    using assms by blast
  then have "map_of cache env_state = None"
    by (simp add: map_of_eq_None_iff)
  then show ?thesis
    using get_config_wrapped_rejects[OF assms(1), of pyd svc w]
    by (simp add: get_config_def lru_cache_def)
qed

theorem get_config_rejects_unrecognized_witness:
  "get_config plain_pydantic (stub_services not_found) (Some ''Staging'') [] w_init
     = (Inl (KeyError ''staging''), [], w_init)
   \<and> get_config plain_pydantic (stub_services not_found) None [] w_init
     = (Inl (ValueError ''ENV_STATE is not set. Possible values are: DEV, TEST, PROD'' None), [], w_init)
   \<and> get_config plain_pydantic (stub_services not_found) (Some []) [] w_init
     = (Inl (ValueError ''ENV_STATE is not set. Possible values are: DEV, TEST, PROD'' None), [], w_init)"
proof -
  have h1: "\<not> recognized (Some ''Staging'')" "\<not> recognized None" "\<not> recognized (Some [])"
    by (simp_all add: recognized_def truthy_opt_def lower_examples)
  have h2: "\<forall>k \<in> fst ` set ([] :: config lru). recognized k"
    by simp
  show ?thesis
    using get_config_rejects_unrecognized[OF h1(1) h2, of plain_pydantic "stub_services not_found" w_init]
      get_config_rejects_unrecognized[OF h1(2) h2, of plain_pydantic "stub_services not_found" w_init]
      get_config_rejects_unrecognized[OF h1(3) h2, of plain_pydantic "stub_services not_found" w_init]
    by (simp add: truthy_opt_def lower_examples)
qed

text \<open>
  Claim C10. When \<^verbatim>\<open>get_config\<close> raises, the cache is what it was and holds no entry
  for the argument. The next call with that argument, in whatever world, therefore runs
  the decorated function again, and its outcome is the outcome of that run, not a stored
  one; for a recognized name the run instantiates the class anew.
\<close>

theorem get_config_failure_not_cached:
  assumes "get_config pyd svc env_state cache w = (Inl e, cache', w')"
  shows "cache' = cache
       \<and> map_of cache' env_state = None
       \<and> (\<forall>w2. get_config pyd svc env_state cache' w2
                 = (case get_config_wrapped pyd svc env_state w2 of
                      (Inl e2, w3) \<Rightarrow> (Inl e2, cache', w3)
                    | (Inr obj, w3) \<Rightarrow> (Inr obj, take maxsize ((env_state, obj) # cache'), w3)))
       \<and> (recognized env_state \<longrightarrow>
            (\<forall>w2. allocated (snd (snd (get_config pyd svc env_state cache' w2))) = Suc (allocated w2)))"
proof -
  have n: "map_of cache env_state = None"
    using assms by (cases "map_of cache env_state") (simp_all add: get_config_def lru_cache_def)
  have c: "cache' = cache"
    using assms n by (auto simp: get_config_def lru_cache_def split: prod.splits sum.splits)
  have again: "\<And>w2. get_config pyd svc env_state cache' w2
                 = (case get_config_wrapped pyd svc env_state w2 of
                      (Inl e2, w3) \<Rightarrow> (Inl e2, cache', w3)
                    | (Inr obj, w3) \<Rightarrow> (Inr obj, take maxsize ((env_state, obj) # cache'), w3))"
    unfolding c using n by (simp add: get_config_def lru_cache_def)
  have "\<And>w2. recognized env_state \<Longrightarrow>
          allocated (snd (snd (get_config pyd svc env_state cache' w2))) = Suc (allocated w2)"
  proof -
    fix w2 assume rec: "recognized env_state"
    obtain r0 w3 where g: "get_config_wrapped pyd svc env_state w2 = (r0, w3)"
      by (cases "get_config_wrapped pyd svc env_state w2")
    have "allocated w3 = Suc (allocated w2)"
      using get_config_wrapped_allocated[of pyd svc env_state w2] g rec by simp
    then show "allocated (snd (snd (get_config pyd svc env_state cache' w2))) = Suc (allocated w2)"
      by (cases r0) (simp_all add: again g)
  qed
  then show ?thesis using n c again by blast
qed

theorem get_config_failure_not_cached_witness:
  "get_config strict_pydantic (stub_services not_found) (Some ''PROD'') [] w_init
     = (Inl (OtherException ''ValidationError'' ''DATABASE_URL: Field required''), [],
        w_init\<lparr>allocated := 1\<rparr>)
   \<and> allocated (snd (snd (get_config strict_pydantic (stub_services not_found) (Some ''PROD'') []
        (w_init\<lparr>allocated := 1\<rparr>)))) = 2"
proof -
  have h: "get_config strict_pydantic (stub_services not_found) (Some ''PROD'') [] w_init
     = (Inl (OtherException ''ValidationError'' ''DATABASE_URL: Field required''), [],
        w_init\<lparr>allocated := 1\<rparr>)"
    by (simp add: get_config_def lru_cache_def get_config_wrapped_def truthy_opt_def lower_examples
        configs_def construct_def strict_pydantic_def plain_pydantic_def resolve_secrets_def
        w_init_def)
  have r: "recognized (Some ''PROD'')"
    by (simp add: recognized_def truthy_opt_def lower_examples)
  have "\<forall>w2. allocated (snd (snd (get_config strict_pydantic (stub_services not_found)
          (Some ''PROD'') [] w2))) = Suc (allocated w2)"
    using r get_config_failure_not_cached[OF h] by blast
  then have "allocated (snd (snd (get_config strict_pydantic (stub_services not_found) (Some ''PROD'') []
        (w_init\<lparr>allocated := 1\<rparr>)))) = Suc (allocated (w_init\<lparr>allocated := 1\<rparr>))"
    by blast
  then show ?thesis
    using h by simp
qed

end
